theory Spec2Isabelle
  imports Main "HOL-Library.Word"
begin

section \<open>The system-call layer of userprog/syscall.c\<close>

text \<open>
  A shallow embedding of \<^verbatim>\<open>src/userprog/syscall.c\<close>. Every function of the file is a
  HOL function that takes the kernel state and returns an outcome together with the new
  state. A C \<^verbatim>\<open>int\<close> or \<^verbatim>\<open>unsigned\<close> is a 32-bit word (read with \<open>sint\<close> where
  the code compares it as signed), a pointer or a 64-bit register is a 64-bit word, and
  \<^verbatim>\<open>NULL\<close> is the word 0.

  The functions the file calls but does not define (the filesystem, the console, the
  process and page-table code, the lock) are collaborators: a call to one is recorded in
  the trace of the state, in program order, and its return value is read from the record
  of collaborators that every function takes as its first argument. The collaborators
  that by contract never return (\<^verbatim>\<open>power_off\<close>, \<^verbatim>\<open>thread_exit\<close>, a successful
  \<^verbatim>\<open>process_exec\<close>) end the computation with a \<open>Stop\<close> outcome; all others are taken
  to return. A fault of the hardware on an access beyond the validated address is not part
  of the model.
\<close>

subsection \<open>Data\<close>

type_synonym addr = "64 word"
type_synonym cint = "32 word"

text \<open>The registers of \<^verbatim>\<open>struct intr_frame\<close> that carry the system-call number, the
  six arguments and the return value.\<close>

record intr_frame =
  rax :: "64 word"
  rdi :: "64 word"
  rsi :: "64 word"
  rdx :: "64 word"
  r10 :: "64 word"
  r8 :: "64 word"
  r9 :: "64 word"

text \<open>The fields of \<^verbatim>\<open>struct thread\<close> the file touches. \<open>fdt\<close> is the array behind
  \<^verbatim>\<open>struct file **fdt\<close>, one pointer per slot.\<close>

record thread =
  name :: string
  exit_status :: cint
  fdt :: "addr list"
  next_fd :: cint
  pml4 :: addr
  parent_if :: intr_frame

text \<open>One constructor per collaborator function called in the file, with the arguments
  of the call.\<close>

datatype call =
    Power_off
  | Printf string
  | Thread_exit
  | Filesys_create addr cint
  | Filesys_remove addr
  | Filesys_open addr
  | Free addr
  | File_length addr
  | Palloc_get_page cint
  | Strlcpy addr addr addr
  | Process_exec addr
  | Lock_acquire
  | Lock_release
  | Input_getc
  | File_read addr addr cint
  | File_write addr addr cint
  | Putbuf addr cint
  | File_seek addr cint
  | File_tell addr
  | Process_wait cint
  | File_close addr
  | Process_fork addr intr_frame

record kstate =
  cur :: thread
  mem :: "addr \<Rightarrow> char"
  trace :: "call list"

text \<open>Why a computation did not return to its caller.\<close>

datatype stop =
    Thread_exited
  | Powered_off
  | Image_replaced
  | Undefined_behaviour

datatype 'a outcome = Ret 'a | Stop stop

text \<open>\<^verbatim>\<open>process_exec\<close> either replaces the process image and never returns, or
  returns an \<^verbatim>\<open>int\<close>.\<close>

datatype exec_result = Exec_replaced | Exec_returns cint

text \<open>The collaborators and the constants of headers that are not part of the file.
  A return value may depend on the whole state at the time of the call.\<close>

record collab =
  FDT_COUNT_LIMIT :: int
  PGSIZE :: addr
  is_user_vaddr :: "addr \<Rightarrow> bool"
  pml4_get_page :: "addr \<Rightarrow> addr \<Rightarrow> addr"
  filesys_create :: "kstate \<Rightarrow> addr \<Rightarrow> cint \<Rightarrow> bool"
  filesys_remove :: "kstate \<Rightarrow> addr \<Rightarrow> bool"
  filesys_open :: "kstate \<Rightarrow> addr \<Rightarrow> addr"
  file_length :: "kstate \<Rightarrow> addr \<Rightarrow> cint"
  palloc_get_page :: "kstate \<Rightarrow> cint \<Rightarrow> addr"
  process_exec :: "kstate \<Rightarrow> addr \<Rightarrow> exec_result"
  input_getc :: "kstate \<Rightarrow> char"
  file_read :: "kstate \<Rightarrow> addr \<Rightarrow> addr \<Rightarrow> cint \<Rightarrow> cint"
  file_write :: "kstate \<Rightarrow> addr \<Rightarrow> addr \<Rightarrow> cint \<Rightarrow> cint"
  file_tell :: "kstate \<Rightarrow> addr \<Rightarrow> cint"
  process_wait :: "kstate \<Rightarrow> cint \<Rightarrow> cint"
  process_fork :: "kstate \<Rightarrow> addr \<Rightarrow> cint"

subsection \<open>Sequencing\<close>

definition then_do ::
  "'a outcome \<times> kstate \<Rightarrow> ('a \<Rightarrow> kstate \<Rightarrow> 'b outcome \<times> kstate) \<Rightarrow> 'b outcome \<times> kstate" where
  "then_do r f = (case r of (Ret a, s) \<Rightarrow> f a s | (Stop st, s) \<Rightarrow> (Stop st, s))"

definition log :: "call \<Rightarrow> kstate \<Rightarrow> kstate" where
  "log c s = s\<lparr>trace := trace s @ [c]\<rparr>"

text \<open>The calls a computation added to the trace: those of \<open>s'\<close> after the ones of \<open>s\<close>.\<close>

definition new_calls :: "kstate \<Rightarrow> kstate \<Rightarrow> call list" where
  "new_calls s s' = drop (length (trace s)) (trace s')"

subsection \<open>The output of printf for %d\<close>

definition digit :: "nat \<Rightarrow> char" where
  "digit d = ''0123456789'' ! (d mod 10)"

fun dec_nat :: "nat \<Rightarrow> string" where
  "dec_nat n = (if n < 10 then [digit n] else dec_nat (n div 10) @ [digit (n mod 10)])"

declare dec_nat.simps [simp del]

definition dec_int :: "int \<Rightarrow> string" where
  "dec_int i = (if i < 0 then CHR ''-'' # dec_nat (nat (- i)) else dec_nat (nat i))"

subsection \<open>check_address, halt, exit\<close>

text \<open>\<^verbatim>\<open>exit\<close> stores the status, prints \<^verbatim>\<open>"%s: exit(%d)\n"\<close> and calls
  \<^verbatim>\<open>thread_exit\<close>, which does not return.\<close>

definition exit :: "cint \<Rightarrow> kstate \<Rightarrow> 'a outcome \<times> kstate" where
  "exit status s =
     (let curr = cur s;
          s1 = s\<lparr>cur := curr\<lparr>exit_status := status\<rparr>\<rparr>;
          s2 = log (Printf (name curr @ '': exit('' @ dec_int (sint status) @ '')'' @ [CHR 0x0A])) s1
      in (Stop Thread_exited, log Thread_exit s2))"

definition check_address :: "collab \<Rightarrow> addr \<Rightarrow> kstate \<Rightarrow> unit outcome \<times> kstate" where
  "check_address K a s =
     (let t = cur s in
      if \<not> is_user_vaddr K a \<or> a = 0 \<or> pml4_get_page K (pml4 t) a = 0
      then exit (- 1) s
      else (Ret (), s))"

definition halt :: "kstate \<Rightarrow> 'a outcome \<times> kstate" where
  "halt s = (Stop Powered_off, log Power_off s)"

subsection \<open>The descriptor table\<close>

text \<open>Reading and writing a slot of the table. An index outside the array is undefined
  behaviour in C; the model stops there instead of inventing a value.\<close>

definition fdt_read :: "int \<Rightarrow> kstate \<Rightarrow> addr outcome \<times> kstate" where
  "fdt_read i s =
     (if 0 \<le> i \<and> nat i < length (fdt (cur s)) then (Ret (fdt (cur s) ! nat i), s)
      else (Stop Undefined_behaviour, s))"

definition fdt_write :: "int \<Rightarrow> addr \<Rightarrow> kstate \<Rightarrow> unit outcome \<times> kstate" where
  "fdt_write i p s =
     (if 0 \<le> i \<and> nat i < length (fdt (cur s))
      then (Ret (), s\<lparr>cur := (cur s)\<lparr>fdt := (fdt (cur s))[nat i := p]\<rparr>\<rparr>)
      else (Stop Undefined_behaviour, s))"

definition process_get_file :: "collab \<Rightarrow> cint \<Rightarrow> kstate \<Rightarrow> addr outcome \<times> kstate" where
  "process_get_file K fd s =
     (if sint fd < 2 \<or> FDT_COUNT_LIMIT K \<le> sint fd then (Ret 0, s)
      else fdt_read (sint fd) s)"

text \<open>
  Modelled from the spec: \<^verbatim>\<open>process_add_file\<close> is defined in another file of the
  repository, which is not among the sources. The spec describes it as the allocation of
  the descriptor table: it scans the slots (from index 2) for the first empty one, stores
  the handle there and returns the index; it returns the failure value \<^verbatim>\<open>-1\<close> when the
  table has no free slot; indices 0 and 1 are never returned. The cursor \<open>next_fd\<close> is
  monotonic and names the next candidate slot, so it moves past the slot just filled.
\<close>

definition process_add_file :: "addr \<Rightarrow> kstate \<Rightarrow> cint \<times> kstate" where
  "process_add_file f s =
     (let t = cur s in
      case find (\<lambda>i. fdt t ! i = 0) [2 ..< length (fdt t)] of
        None \<Rightarrow> (- 1, s)
      | Some i \<Rightarrow>
          (of_nat i,
           s\<lparr>cur := t\<lparr>fdt := (fdt t)[i := f],
                       next_fd := (if sint (next_fd t) \<le> int i then of_nat (i + 1)
                                   else next_fd t)\<rparr>\<rparr>))"

subsection \<open>The handlers\<close>

definition create :: "collab \<Rightarrow> addr \<Rightarrow> cint \<Rightarrow> kstate \<Rightarrow> bool outcome \<times> kstate" where
  "create K file initial_size s =
     then_do (check_address K file s) (\<lambda>_ s1.
       (Ret (filesys_create K s1 file initial_size), log (Filesys_create file initial_size) s1))"

definition remove :: "collab \<Rightarrow> addr \<Rightarrow> kstate \<Rightarrow> bool outcome \<times> kstate" where
  "remove K file s =
     then_do (check_address K file s) (\<lambda>_ s1.
       (Ret (filesys_remove K s1 file), log (Filesys_remove file) s1))"

definition open_file :: "collab \<Rightarrow> addr \<Rightarrow> kstate \<Rightarrow> cint outcome \<times> kstate" where
  "open_file K file s =
     then_do (check_address K file s) (\<lambda>_ s1.
       let f = filesys_open K s1 file;
           s2 = log (Filesys_open file) s1
       in if f = 0 then (Ret (- 1), s2)
          else case process_add_file f s2 of
                 (fd, s3) \<Rightarrow> if fd = - 1 then (Ret fd, log (Free f) s3) else (Ret fd, s3))"

definition filesize :: "collab \<Rightarrow> cint \<Rightarrow> kstate \<Rightarrow> cint outcome \<times> kstate" where
  "filesize K fd s =
     then_do (process_get_file K fd s) (\<lambda>f s1.
       if f = 0 then (Ret (- 1), s1)
       else (Ret (file_length K s1 f), log (File_length f) s1))"

text \<open>\<^verbatim>\<open>exec\<close> has no \<^verbatim>\<open>return\<close> statement: when \<^verbatim>\<open>process_exec\<close> returns a
  value other than -1 the function reaches its closing brace, and its result is
  \<open>None\<close>, no value.\<close>

definition exec :: "collab \<Rightarrow> addr \<Rightarrow> kstate \<Rightarrow> cint option outcome \<times> kstate" where
  "exec K cmd_line s =
     then_do (check_address K cmd_line s) (\<lambda>_ s1.
       let cmd_line_copy = palloc_get_page K s1 0;
           s2 = log (Palloc_get_page 0) s1
       in then_do (if cmd_line_copy = 0 then exit (- 1) s2 else (Ret (), s2)) (\<lambda>_ s3.
            let s4 = log (Strlcpy cmd_line_copy cmd_line (PGSIZE K)) s3;
                r = process_exec K s4 cmd_line_copy;
                s5 = log (Process_exec cmd_line_copy) s4
            in case r of
                 Exec_replaced \<Rightarrow> (Stop Image_replaced, s5)
               | Exec_returns v \<Rightarrow> if v = - 1 then exit (- 1) s5 else (Ret None, s5)))"

text \<open>The loop of \<^verbatim>\<open>read\<close> on standard input. The test \<^verbatim>\<open>i < size\<close> compares as
  unsigned, so the body runs \<^verbatim>\<open>size\<close> times (\<open>n\<close> below counts the rounds that are
  left): one character from \<^verbatim>\<open>input_getc\<close> is stored through \<^verbatim>\<open>ptr\<close>, and
  \<^verbatim>\<open>ptr\<close> and \<^verbatim>\<open>bytes_read\<close> are incremented. The 32-bit counters wrap around, as
  they do in the compiled code.\<close>

fun read_loop :: "collab \<Rightarrow> nat \<Rightarrow> addr \<Rightarrow> cint \<Rightarrow> kstate \<Rightarrow> cint \<times> kstate" where
  "read_loop K 0 ptr bytes_read s = (bytes_read, s)"
| "read_loop K (Suc n) ptr bytes_read s =
     (let c = input_getc K s;
          s1 = log Input_getc s;
          s2 = s1\<lparr>mem := (mem s1)(ptr := c)\<rparr>
      in read_loop K n (ptr + 1) (bytes_read + 1) s2)"

definition read :: "collab \<Rightarrow> cint \<Rightarrow> addr \<Rightarrow> cint \<Rightarrow> kstate \<Rightarrow> cint outcome \<times> kstate" where
  "read K fd buffer sz s =
     then_do (check_address K buffer s) (\<lambda>_ s1.
       let s2 = log Lock_acquire s1
       in if fd = 0
          then (case read_loop K (unat sz) buffer 0 s2 of
                  (bytes_read, s3) \<Rightarrow> (Ret bytes_read, log Lock_release s3))
          else if sint fd < 2 then (Ret (- 1), log Lock_release s2)
          else then_do (process_get_file K fd s2) (\<lambda>file s3.
                 if file = 0 then (Ret (- 1), log Lock_release s3)
                 else let bytes_read = file_read K s3 file buffer sz;
                          s4 = log (File_read file buffer sz) s3
                      in (Ret bytes_read, log Lock_release s4)))"

definition "write" :: "collab \<Rightarrow> cint \<Rightarrow> addr \<Rightarrow> cint \<Rightarrow> kstate \<Rightarrow> cint outcome \<times> kstate" where
  "write K fd buffer sz s =
     then_do (check_address K buffer s) (\<lambda>_ s1.
       if fd = 1 then (Ret sz, log (Putbuf buffer sz) s1)
       else if sint fd < 2 then (Ret (- 1), s1)
       else then_do (process_get_file K fd s1) (\<lambda>file s2.
              if file = 0 then (Ret (- 1), s2)
              else let s3 = log Lock_acquire s2;
                       bytes_write = file_write K s3 file buffer sz;
                       s4 = log (File_write file buffer sz) s3
                   in (Ret bytes_write, log Lock_release s4)))"

definition seek :: "collab \<Rightarrow> cint \<Rightarrow> cint \<Rightarrow> kstate \<Rightarrow> unit outcome \<times> kstate" where
  "seek K fd position s =
     then_do (process_get_file K fd s) (\<lambda>file s1.
       if file = 0 then (Ret (), s1) else (Ret (), log (File_seek file position) s1))"

text \<open>\<^verbatim>\<open>tell\<close> executes \<^verbatim>\<open>return;\<close> without a value when the lookup fails.\<close>

definition tell :: "collab \<Rightarrow> cint \<Rightarrow> kstate \<Rightarrow> cint option outcome \<times> kstate" where
  "tell K fd s =
     then_do (process_get_file K fd s) (\<lambda>file s1.
       if file = 0 then (Ret None, s1)
       else (Ret (Some (file_tell K s1 file)), log (File_tell file) s1))"

definition wait :: "collab \<Rightarrow> cint \<Rightarrow> kstate \<Rightarrow> cint outcome \<times> kstate" where
  "wait K pid s = (Ret (process_wait K s pid), log (Process_wait pid) s)"

definition close :: "collab \<Rightarrow> cint \<Rightarrow> kstate \<Rightarrow> unit outcome \<times> kstate" where
  "close K fd s =
     (let current = cur s in
      if sint fd \<le> 1 \<or> sint (next_fd current) \<le> sint fd then (Ret (), s)
      else then_do (process_get_file K fd s) (\<lambda>file s1.
             fdt_write (sint fd) 0 (log (File_close file) s1)))"

definition fork :: "collab \<Rightarrow> addr \<Rightarrow> kstate \<Rightarrow> cint outcome \<times> kstate" where
  "fork K thread_name s =
     (let curr = cur s in
      (Ret (process_fork K s thread_name), log (Process_fork thread_name (parent_if curr)) s))"

subsection \<open>The dispatcher\<close>

text \<open>Modelled from the spec: the header \<^verbatim>\<open>syscall-nr.h\<close> with the enumeration of the
  system-call numbers is not among the sources. The spec lists the fourteen handlers in
  this order; as in an enumeration, they are numbered from 0.\<close>

definition SYS_HALT :: cint where "SYS_HALT = 0"
definition SYS_EXIT :: cint where "SYS_EXIT = 1"
definition SYS_FORK :: cint where "SYS_FORK = 2"
definition SYS_EXEC :: cint where "SYS_EXEC = 3"
definition SYS_WAIT :: cint where "SYS_WAIT = 4"
definition SYS_CREATE :: cint where "SYS_CREATE = 5"
definition SYS_REMOVE :: cint where "SYS_REMOVE = 6"
definition SYS_OPEN :: cint where "SYS_OPEN = 7"
definition SYS_FILESIZE :: cint where "SYS_FILESIZE = 8"
definition SYS_READ :: cint where "SYS_READ = 9"
definition SYS_WRITE :: cint where "SYS_WRITE = 10"
definition SYS_SEEK :: cint where "SYS_SEEK = 11"
definition SYS_TELL :: cint where "SYS_TELL = 12"
definition SYS_CLOSE :: cint where "SYS_CLOSE = 13"

lemmas SYS_defs =
  SYS_HALT_def SYS_EXIT_def SYS_FORK_def SYS_EXEC_def SYS_WAIT_def SYS_CREATE_def
  SYS_REMOVE_def SYS_OPEN_def SYS_FILESIZE_def SYS_READ_def SYS_WRITE_def SYS_SEEK_def
  SYS_TELL_def SYS_CLOSE_def

text \<open>Storing a handler's result into \<^verbatim>\<open>f->R.rax\<close>: an \<^verbatim>\<open>int\<close> is sign-extended to
  the 64-bit register, an \<^verbatim>\<open>unsigned\<close> is zero-extended, a \<^verbatim>\<open>bool\<close> becomes 0 or 1.
  Using the result of a function that returned no value is undefined behaviour.\<close>

definition set_rax_int :: "intr_frame \<Rightarrow> cint outcome \<times> kstate \<Rightarrow> intr_frame outcome \<times> kstate" where
  "set_rax_int f r = then_do r (\<lambda>v s. (Ret (f\<lparr>rax := scast v\<rparr>), s))"

definition set_rax_bool :: "intr_frame \<Rightarrow> bool outcome \<times> kstate \<Rightarrow> intr_frame outcome \<times> kstate" where
  "set_rax_bool f r = then_do r (\<lambda>v s. (Ret (f\<lparr>rax := (if v then 1 else 0)\<rparr>), s))"

definition set_rax_int_opt ::
  "intr_frame \<Rightarrow> cint option outcome \<times> kstate \<Rightarrow> intr_frame outcome \<times> kstate" where
  "set_rax_int_opt f r =
     then_do r (\<lambda>v s. case v of None \<Rightarrow> (Stop Undefined_behaviour, s)
                               | Some x \<Rightarrow> (Ret (f\<lparr>rax := scast x\<rparr>), s))"

definition set_rax_unsigned_opt ::
  "intr_frame \<Rightarrow> cint option outcome \<times> kstate \<Rightarrow> intr_frame outcome \<times> kstate" where
  "set_rax_unsigned_opt f r =
     then_do r (\<lambda>v s. case v of None \<Rightarrow> (Stop Undefined_behaviour, s)
                               | Some x \<Rightarrow> (Ret (f\<lparr>rax := ucast x\<rparr>), s))"

definition keep_frame :: "intr_frame \<Rightarrow> unit outcome \<times> kstate \<Rightarrow> intr_frame outcome \<times> kstate" where
  "keep_frame f r = then_do r (\<lambda>_ s. (Ret f, s))"

text \<open>\<^verbatim>\<open>int syscall_number = f->R.rax\<close> keeps the low 32 bits of the register; an
  \<^verbatim>\<open>int\<close> or \<^verbatim>\<open>unsigned\<close> parameter keeps the low 32 bits of its argument register.\<close>

definition syscall_handler :: "collab \<Rightarrow> intr_frame \<Rightarrow> kstate \<Rightarrow> intr_frame outcome \<times> kstate" where
  "syscall_handler K f s =
     (let syscall_number = (ucast (rax f) :: cint) in
      if syscall_number = SYS_HALT then halt s
      else if syscall_number = SYS_EXIT then exit (ucast (rdi f)) s
      else if syscall_number = SYS_FORK then
        set_rax_int f (fork K (rdi f) (s\<lparr>cur := (cur s)\<lparr>parent_if := f\<rparr>\<rparr>))
      else if syscall_number = SYS_EXEC then set_rax_int_opt f (exec K (rdi f) s)
      else if syscall_number = SYS_WAIT then set_rax_int f (wait K (ucast (rdi f)) s)
      else if syscall_number = SYS_CREATE then
        set_rax_bool f (create K (rdi f) (ucast (rsi f)) s)
      else if syscall_number = SYS_REMOVE then set_rax_bool f (remove K (rdi f) s)
      else if syscall_number = SYS_OPEN then set_rax_int f (open_file K (rdi f) s)
      else if syscall_number = SYS_FILESIZE then set_rax_int f (filesize K (ucast (rdi f)) s)
      else if syscall_number = SYS_READ then
        set_rax_int f (read K (ucast (rdi f)) (rsi f) (ucast (rdx f)) s)
      else if syscall_number = SYS_WRITE then
        set_rax_int f (write K (ucast (rdi f)) (rsi f) (ucast (rdx f)) s)
      else if syscall_number = SYS_SEEK then
        keep_frame f (seek K (ucast (rdi f)) (ucast (rsi f)) s)
      else if syscall_number = SYS_TELL then set_rax_unsigned_opt f (tell K (ucast (rdi f)) s)
      else if syscall_number = SYS_CLOSE then keep_frame f (close K (ucast (rdi f)) s)
      else (Ret f, s))"

subsection \<open>The filesystem lock in the trace\<close>

definition is_file_io :: "call \<Rightarrow> bool" where
  "is_file_io c = (case c of File_read f b n \<Rightarrow> True | File_write f b n \<Rightarrow> True | _ \<Rightarrow> False)"

text \<open>Every \<^verbatim>\<open>lock_acquire\<close> in a list of calls is followed by exactly one
  \<^verbatim>\<open>file_read\<close> or \<^verbatim>\<open>file_write\<close> and then by \<^verbatim>\<open>lock_release\<close>, and there is no
  other \<^verbatim>\<open>lock_release\<close>.\<close>

fun lock_only_around_io :: "call list \<Rightarrow> bool" where
  "lock_only_around_io [] = True"
| "lock_only_around_io (c # cs) =
     (if c = Lock_acquire
      then (case cs of
              io # Lock_release # rest \<Rightarrow> is_file_io io \<and> lock_only_around_io rest
            | _ \<Rightarrow> False)
      else c \<noteq> Lock_release \<and> lock_only_around_io cs)"

text \<open>Whether the lock is held after a list of calls that starts with the lock free.\<close>

definition lock_step :: "bool \<Rightarrow> call \<Rightarrow> bool" where
  "lock_step held c = (case c of Lock_acquire \<Rightarrow> True | Lock_release \<Rightarrow> False | _ \<Rightarrow> held)"

definition lock_held_after :: "call list \<Rightarrow> bool" where
  "lock_held_after cs = foldl lock_step False cs"

subsection \<open>The numbers the dispatcher knows\<close>

definition handler_numbers :: "cint list" where
  "handler_numbers =
     [SYS_HALT, SYS_EXIT, SYS_FORK, SYS_EXEC, SYS_WAIT, SYS_CREATE, SYS_REMOVE, SYS_OPEN,
      SYS_FILESIZE, SYS_READ, SYS_WRITE, SYS_SEEK, SYS_TELL, SYS_CLOSE]"

subsection \<open>The system calls of a process, one after the other\<close>

text \<open>A process makes its system calls one at a time; each arrives with its own frame.
  The next one is made only if the dispatcher returned from the one before.\<close>

fun syscalls :: "collab \<Rightarrow> intr_frame list \<Rightarrow> kstate \<Rightarrow> stop option \<times> kstate" where
  "syscalls K [] s = (None, s)"
| "syscalls K (f # fs) s =
     (case syscall_handler K f s of
        (Ret f', s') \<Rightarrow> syscalls K fs s'
      | (Stop r, s') \<Rightarrow> (Some r, s'))"

subsection \<open>Valid pointers, well-formed tables, and a concrete machine\<close>

text \<open>A pointer is valid when it is not null, lies in user space and its page is mapped
  in the page table of the current thread.\<close>

definition valid_pointer :: "collab \<Rightarrow> kstate \<Rightarrow> addr \<Rightarrow> bool" where
  "valid_pointer K s a =
     (a \<noteq> 0 \<and> is_user_vaddr K a \<and> pml4_get_page K (pml4 (cur s)) a \<noteq> 0)"

text \<open>The array behind \<open>fdt\<close> has \<^verbatim>\<open>FDT_COUNT_LIMIT\<close> slots.\<close>

definition fdt_allocated :: "collab \<Rightarrow> kstate \<Rightarrow> bool" where
  "fdt_allocated K s = (length (fdt (cur s)) = nat (FDT_COUNT_LIMIT K))"

text \<open>The state in which a process dies in \<^verbatim>\<open>exit(status)\<close>.\<close>

definition exited :: "cint \<Rightarrow> kstate \<Rightarrow> kstate" where
  "exited status s =
     s\<lparr>cur := (cur s)\<lparr>exit_status := status\<rparr>,
       trace := trace s @
         [Printf (name (cur s) @ '': exit('' @ dec_int (sint status) @ '')'' @ [CHR 0x0A]),
          Thread_exit]\<rparr>"

text \<open>A small machine on which the theorems are instantiated: a table of eight slots
  with one open file in slot 2, user space below \<^verbatim>\<open>0x8004000000\<close> with the pages from
  \<^verbatim>\<open>0x400000\<close> to \<^verbatim>\<open>0x500000\<close> mapped, and a filesystem that knows one path.\<close>

definition K0 :: collab where
  "K0 = \<lparr>FDT_COUNT_LIMIT = 8,
         PGSIZE = 4096,
         is_user_vaddr = (\<lambda>a. a < 0x8004000000),
         pml4_get_page = (\<lambda>p a. if 0x400000 \<le> a \<and> a < 0x500000 then 0x8004000000 + a else 0),
         filesys_create = (\<lambda>s a n. True),
         filesys_remove = (\<lambda>s a. True),
         filesys_open = (\<lambda>s a. if a = 0x400000 then 0x8004100000 else 0),
         file_length = (\<lambda>s f. 10),
         palloc_get_page = (\<lambda>s fl. 0x8004200000),
         process_exec = (\<lambda>s p. Exec_replaced),
         input_getc = (\<lambda>s. CHR ''x''),
         file_read = (\<lambda>s f b n. n),
         file_write = (\<lambda>s f b n. n),
         file_tell = (\<lambda>s f. 0),
         process_wait = (\<lambda>s pid. - 1),
         process_fork = (\<lambda>s a. 5)\<rparr>"

definition f0 :: intr_frame where
  "f0 = \<lparr>rax = 0, rdi = 0, rsi = 0, rdx = 0, r10 = 0, r8 = 0, r9 = 0\<rparr>"

definition s0 :: kstate where
  "s0 = \<lparr>cur = \<lparr>name = ''main'', exit_status = 0,
                 fdt = [0, 0, 0x8004300000, 0, 0, 0, 0, 0],
                 next_fd = 3, pml4 = 0x8004400000, parent_if = f0\<rparr>,
          mem = (\<lambda>a. CHR 0x00),
          trace = []\<rparr>"

section \<open>Properties\<close>

subsection \<open>Basic rules\<close>

lemma then_do_Ret [simp]: "then_do (Ret a, s) f = f a s"
  by (simp add: then_do_def)

lemma then_do_Stop [simp]: "then_do (Stop r, s) f = (Stop r, s)"
  by (simp add: then_do_def)

lemma exit_eq: "exit status s = (Stop Thread_exited, exited status s)"
  by (simp add: exit_def exited_def log_def Let_def)

lemma check_address_valid: "valid_pointer K s a \<Longrightarrow> check_address K a s = (Ret (), s)"
  by (auto simp: check_address_def valid_pointer_def)

lemma check_address_invalid:
  "\<not> valid_pointer K s a \<Longrightarrow> check_address K a s = (Stop Thread_exited, exited (- 1) s)"
  by (auto simp: check_address_def valid_pointer_def exit_eq)

lemma dec_int_minus_one: "dec_int (- 1) = ''-1''"
  by (simp add: dec_int_def dec_nat.simps digit_def)

lemma process_get_file_allocated:
  assumes "fdt_allocated K s"
  shows "process_get_file K fd s =
           (Ret (if sint fd < 2 \<or> FDT_COUNT_LIMIT K \<le> sint fd then 0
                 else fdt (cur s) ! nat (sint fd)), s)"
  using assms by (auto simp: process_get_file_def fdt_read_def fdt_allocated_def)

lemma trace_log [simp]: "trace (log c s) = trace s @ [c]"
  by (simp add: log_def)

lemma cur_log [simp]: "cur (log c s) = cur s"
  by (simp add: log_def)

lemma process_get_file_cases:
  "process_get_file K fd s = (Ret 0, s)
   \<or> (\<exists>p. p \<noteq> 0 \<and> 2 \<le> sint fd \<and> p = fdt (cur s) ! nat (sint fd)
          \<and> process_get_file K fd s = (Ret p, s))
   \<or> (2 \<le> sint fd \<and> process_get_file K fd s = (Stop Undefined_behaviour, s))"
  by (auto simp: process_get_file_def fdt_read_def)

lemma process_get_file_log:
  "process_get_file K fd (log c s) = (fst (process_get_file K fd s), log c s)"
  by (simp add: process_get_file_def fdt_read_def)

lemma process_get_file_trace:
  "process_get_file K fd (s\<lparr>trace := t\<rparr>) = (fst (process_get_file K fd s), s\<lparr>trace := t\<rparr>)"
  by (simp add: process_get_file_def fdt_read_def)

lemma read_loop_trace:
  "trace (snd (read_loop K n ptr b s)) = trace s @ replicate n Input_getc"
  by (induction n arbitrary: ptr b s) (simp_all add: Let_def replicate_app_Cons_same)

lemma read_loop_cur: "cur (snd (read_loop K n ptr b s)) = cur s"
  by (induction n arbitrary: ptr b s) (simp_all add: Let_def)

lemma read_loop_count: "fst (read_loop K n ptr b s) = b + of_nat n"
  by (induction n arbitrary: ptr b s) (simp_all add: Let_def)

lemma write_valid:
  assumes "valid_pointer K s buffer"
  shows "write K fd buffer sz s =
     (if fd = 1 then (Ret sz, log (Putbuf buffer sz) s)
      else if sint fd < 2 then (Ret (- 1), s)
      else then_do (process_get_file K fd s) (\<lambda>file s2.
             if file = 0 then (Ret (- 1), s2)
             else (Ret (file_write K (log Lock_acquire s2) file buffer sz),
                   log Lock_release (log (File_write file buffer sz) (log Lock_acquire s2)))))"
  using assms by (simp add: write_def check_address_valid Let_def cong: if_cong)

lemma read_valid:
  assumes "valid_pointer K s buffer"
  shows "read K fd buffer sz s =
     (if fd = 0
      then (Ret (fst (read_loop K (unat sz) buffer 0 (log Lock_acquire s))),
            log Lock_release (snd (read_loop K (unat sz) buffer 0 (log Lock_acquire s))))
      else if sint fd < 2 then (Ret (- 1), log Lock_release (log Lock_acquire s))
      else then_do (process_get_file K fd (log Lock_acquire s)) (\<lambda>file s3.
             if file = 0 then (Ret (- 1), log Lock_release s3)
             else (Ret (file_read K s3 file buffer sz),
                   log Lock_release (log (File_read file buffer sz) s3))))"
  using assms by (simp add: read_def check_address_valid Let_def split_beta cong: if_cong)

lemma write_invalid:
  "\<not> valid_pointer K s buffer \<Longrightarrow>
     write K fd buffer sz s = (Stop Thread_exited, exited (- 1) s)"
  by (simp add: write_def check_address_invalid)

lemma read_invalid:
  "\<not> valid_pointer K s buffer \<Longrightarrow>
     read K fd buffer sz s = (Stop Thread_exited, exited (- 1) s)"
  by (simp add: read_def check_address_invalid)

lemma write_calls:
  assumes "write K fd buffer sz s = (Ret r, s')"
  shows "new_calls s s' = [Putbuf buffer sz] \<or> new_calls s s' = []
         \<or> (\<exists>p. new_calls s s' = [Lock_acquire, File_write p buffer sz, Lock_release])"
proof (cases "valid_pointer K s buffer")
  case True
  then show ?thesis
    using assms process_get_file_cases [of K fd s]
    by (auto simp: write_valid new_calls_def split: if_splits)
next
  case False
  then show ?thesis
    using assms by (simp add: write_invalid)
qed

lemma read_calls:
  assumes "read K fd buffer sz s = (Ret r, s')"
  shows "new_calls s s' =
           Lock_acquire #
             (if fd = 0 then replicate (unat sz) Input_getc
              else if sint fd < 2 \<or> fst (process_get_file K fd s) = Ret 0 then []
              else [File_read (fdt (cur s) ! nat (sint fd)) buffer sz]) @ [Lock_release]"
proof (cases "valid_pointer K s buffer")
  case True
  then show ?thesis
    using assms process_get_file_cases [of K fd s]
    by (auto simp: read_valid new_calls_def process_get_file_log read_loop_trace
             split: if_splits)
next
  case False
  then show ?thesis
    using assms by (simp add: read_invalid)
qed

lemma lock_held_after_read_calls:
  "\<not> lock_held_after (Lock_acquire # cs @ [Lock_release])"
  by (simp add: lock_held_after_def lock_step_def)

lemma sint_of_nat_small:
  assumes "i < 2 ^ 31"
  shows "sint (of_nat i :: cint) = int i"
  using int_word_sint [where 'a = 32, of "int i"] assms by simp

lemma find_upt_None:
  "find P [a ..< b] = None \<longleftrightarrow> (\<forall>i. a \<le> i \<and> i < b \<longrightarrow> \<not> P i)"
  by (auto simp: find_None_iff)

lemma find_upt_Some:
  "find P [a ..< b] = Some i \<Longrightarrow> a \<le> i \<and> i < b \<and> P i \<and> (\<forall>j. a \<le> j \<and> j < i \<longrightarrow> \<not> P j)"
  apply (auto simp: find_Some_iff)
  subgoal for k j
    apply (drule_tac x = "j - a" in spec)
    apply auto
    done
  done

lemma process_add_file_full:
  assumes "\<forall>i. 2 \<le> i \<and> i < length (fdt (cur s)) \<longrightarrow> fdt (cur s) ! i \<noteq> 0"
  shows "process_add_file f s = (- 1, s)"
proof -
  have "find (\<lambda>i. fdt (cur s) ! i = 0) [2 ..< length (fdt (cur s))] = None"
    using assms by (simp add: find_upt_None)
  then show ?thesis
    by (simp add: process_add_file_def)
qed

lemma process_add_file_free:
  assumes "\<exists>i. 2 \<le> i \<and> i < length (fdt (cur s)) \<and> fdt (cur s) ! i = 0"
  shows "\<exists>i. 2 \<le> i \<and> i < length (fdt (cur s)) \<and> fdt (cur s) ! i = 0
            \<and> (\<forall>j. 2 \<le> j \<and> j < i \<longrightarrow> fdt (cur s) ! j \<noteq> 0)
            \<and> fst (process_add_file f s) = of_nat i
            \<and> fdt (cur (snd (process_add_file f s))) = (fdt (cur s))[i := f]
            \<and> trace (snd (process_add_file f s)) = trace s"
proof -
  have "find (\<lambda>i. fdt (cur s) ! i = 0) [2 ..< length (fdt (cur s))] \<noteq> None"
    using assms by (simp add: find_upt_None)
  then obtain i where i: "find (\<lambda>i. fdt (cur s) ! i = 0) [2 ..< length (fdt (cur s))] = Some i"
    by blast
  from find_upt_Some [OF i] i show ?thesis
    by (intro exI [of _ i]) (simp add: process_add_file_def Let_def)
qed


lemma open_file_valid:
  assumes "valid_pointer K s file"
  shows "open_file K file s =
     (let f = filesys_open K s file; s2 = log (Filesys_open file) s
      in if f = 0 then (Ret (- 1), s2)
         else if fst (process_add_file f s2) = - 1
              then (Ret (- 1), log (Free f) (snd (process_add_file f s2)))
              else (Ret (fst (process_add_file f s2)), snd (process_add_file f s2)))"
  using assms by (simp add: open_file_def check_address_valid Let_def split_beta)

text \<open>No handler that returns has written \<open>exit_status\<close>.\<close>

lemma then_do_RetD:
  "then_do m f = (Ret r, s') \<Longrightarrow> \<exists>a s1. m = (Ret a, s1) \<and> f a s1 = (Ret r, s')"
  by (cases m) (auto simp: then_do_def split: outcome.splits)

lemma check_address_RetD: "check_address K a s = (Ret r, s') \<Longrightarrow> s' = s"
  by (auto simp: check_address_def exit_eq split: if_splits)

lemma process_get_file_RetD: "process_get_file K fd s = (Ret r, s') \<Longrightarrow> s' = s"
  by (auto simp: process_get_file_def fdt_read_def split: if_splits)

lemma exit_status_log [simp]: "exit_status (cur (log c s)) = exit_status (cur s)"
  by (simp add: log_def)

lemma process_add_file_status:
  "exit_status (cur (snd (process_add_file f s))) = exit_status (cur s)"
  by (simp add: process_add_file_def Let_def split: option.splits)

lemma create_status:
  "create K file n s = (Ret r, s') \<Longrightarrow> exit_status (cur s') = exit_status (cur s)"
  by (auto simp: create_def dest!: then_do_RetD check_address_RetD)

lemma remove_status:
  "remove K file s = (Ret r, s') \<Longrightarrow> exit_status (cur s') = exit_status (cur s)"
  by (auto simp: remove_def dest!: then_do_RetD check_address_RetD)

lemma open_file_status:
  "open_file K file s = (Ret r, s') \<Longrightarrow> exit_status (cur s') = exit_status (cur s)"
  using process_add_file_status [of "filesys_open K s file" "log (Filesys_open file) s"]
  by (auto simp: open_file_def Let_def split_beta dest!: then_do_RetD check_address_RetD
           split: if_splits)

lemma filesize_status:
  "filesize K fd s = (Ret r, s') \<Longrightarrow> exit_status (cur s') = exit_status (cur s)"
  by (auto simp: filesize_def dest!: then_do_RetD process_get_file_RetD split: if_splits)

lemma exec_status:
  "exec K a s = (Ret r, s') \<Longrightarrow> exit_status (cur s') = exit_status (cur s)"
  by (auto simp: exec_def Let_def exit_eq dest!: then_do_RetD check_address_RetD
           split: if_splits exec_result.splits)

lemma read_status:
  "read K fd buffer sz s = (Ret r, s') \<Longrightarrow> exit_status (cur s') = exit_status (cur s)"
  by (auto simp: read_def Let_def split_beta read_loop_cur
           dest!: then_do_RetD check_address_RetD process_get_file_RetD split: if_splits)

lemma write_status:
  "write K fd buffer sz s = (Ret r, s') \<Longrightarrow> exit_status (cur s') = exit_status (cur s)"
  by (auto simp: write_def Let_def
           dest!: then_do_RetD check_address_RetD process_get_file_RetD split: if_splits)

lemma seek_status:
  "seek K fd pos s = (Ret r, s') \<Longrightarrow> exit_status (cur s') = exit_status (cur s)"
  by (auto simp: seek_def dest!: then_do_RetD process_get_file_RetD split: if_splits)

lemma tell_status:
  "tell K fd s = (Ret r, s') \<Longrightarrow> exit_status (cur s') = exit_status (cur s)"
  by (auto simp: tell_def dest!: then_do_RetD process_get_file_RetD split: if_splits)

lemma wait_status:
  "wait K pid s = (Ret r, s') \<Longrightarrow> exit_status (cur s') = exit_status (cur s)"
  by (auto simp: wait_def)

lemma close_status:
  "close K fd s = (Ret r, s') \<Longrightarrow> exit_status (cur s') = exit_status (cur s)"
  by (auto simp: close_def Let_def fdt_write_def
           dest!: then_do_RetD process_get_file_RetD split: if_splits)

lemma fork_status:
  "fork K a s = (Ret r, s') \<Longrightarrow> exit_status (cur s') = exit_status (cur s)"
  by (auto simp: fork_def Let_def)

lemmas handler_status =
  create_status remove_status open_file_status filesize_status exec_status read_status
  write_status seek_status tell_status wait_status close_status

lemma syscall_handler_status:
  assumes "syscall_handler K f s = (Ret f', s')"
  shows "exit_status (cur s') = exit_status (cur s)"
  using assms
  by (auto simp: syscall_handler_def Let_def halt_def exit_eq set_rax_int_def set_rax_bool_def
        set_rax_int_opt_def set_rax_unsigned_opt_def keep_frame_def
      dest!: then_do_RetD split: if_splits option.splits
      dest: handler_status fork_status)

lemma syscalls_alive_status:
  "syscalls K fs s = (None, s') \<Longrightarrow> exit_status (cur s') = exit_status (cur s)"
proof (induction fs arbitrary: s)
  case Nil
  then show ?case by simp
next
  case (Cons f fs)
  then show ?case
    by (auto split: prod.splits outcome.splits dest: syscall_handler_status)
qed

text \<open>The concrete machine: a valid buffer, and the handlers on it.\<close>

lemma valid_K0: "valid_pointer K0 s0 0x400010"
  by (simp add: valid_pointer_def K0_def s0_def)

lemma process_get_file_K0:
  "process_get_file K0 fd s0 =
     (Ret (if sint fd < 2 \<or> 8 \<le> sint fd then 0
           else [0, 0, 0x8004300000, 0, 0, 0, 0, 0] ! nat (sint fd)), s0)"
  using process_get_file_allocated [of K0 s0 fd]
  by (simp add: fdt_allocated_def K0_def s0_def)

subsection \<open>The address validator\<close>

text \<open>
  C1. For every pointer handed to \<open>create\<close>, \<open>remove\<close>, \<open>open\<close>, \<open>exec\<close>, \<open>read\<close> or
  \<open>write\<close>: if the pointer is null, or outside user space, or its page is unmapped, then
  \<open>check_address\<close> ends the calling process with exit status -1 (the status is stored, the
  message is printed, \<open>thread_exit\<close> is called), and each of the six handlers ends in
  exactly that state, so nothing of the handler after the validation has run. If the
  pointer is valid, \<open>check_address\<close> returns and the state is unchanged.
\<close>

theorem check_address_exits_iff_invalid:
  "(a = 0 \<or> \<not> is_user_vaddr K a \<or> pml4_get_page K (pml4 (cur s)) a = 0 \<longrightarrow>
      (let s' = s\<lparr>cur := (cur s)\<lparr>exit_status := - 1\<rparr>,
                   trace := trace s @
                     [Printf (name (cur s) @ '': exit(-1)'' @ [CHR 0x0A]), Thread_exit]\<rparr>
       in check_address K a s = (Stop Thread_exited, s')
          \<and> create K a n s = (Stop Thread_exited, s')
          \<and> remove K a s = (Stop Thread_exited, s')
          \<and> open_file K a s = (Stop Thread_exited, s')
          \<and> exec K a s = (Stop Thread_exited, s')
          \<and> read K fd a n s = (Stop Thread_exited, s')
          \<and> write K fd a n s = (Stop Thread_exited, s')))
   \<and> (a \<noteq> 0 \<and> is_user_vaddr K a \<and> pml4_get_page K (pml4 (cur s)) a \<noteq> 0 \<longrightarrow>
        check_address K a s = (Ret (), s))"
proof (intro conjI impI)
  assume "a = 0 \<or> \<not> is_user_vaddr K a \<or> pml4_get_page K (pml4 (cur s)) a = 0"
  then have bad: "\<not> valid_pointer K s a"
    by (auto simp: valid_pointer_def)
  have ex: "exited (- 1) s =
      s\<lparr>cur := (cur s)\<lparr>exit_status := - 1\<rparr>,
        trace := trace s @ [Printf (name (cur s) @ '': exit(-1)'' @ [CHR 0x0A]), Thread_exit]\<rparr>"
    by (simp add: exited_def dec_int_minus_one)
  have c: "check_address K a s = (Stop Thread_exited, exited (- 1) s)"
    using bad by (rule check_address_invalid)
  show "let s' = s\<lparr>cur := (cur s)\<lparr>exit_status := - 1\<rparr>,
                   trace := trace s @
                     [Printf (name (cur s) @ '': exit(-1)'' @ [CHR 0x0A]), Thread_exit]\<rparr>
       in check_address K a s = (Stop Thread_exited, s')
          \<and> create K a n s = (Stop Thread_exited, s')
          \<and> remove K a s = (Stop Thread_exited, s')
          \<and> open_file K a s = (Stop Thread_exited, s')
          \<and> exec K a s = (Stop Thread_exited, s')
          \<and> read K fd a n s = (Stop Thread_exited, s')
          \<and> write K fd a n s = (Stop Thread_exited, s')"
    unfolding Let_def ex [symmetric]
    by (simp add: c create_def remove_def open_file_def exec_def read_def write_def)
next
  assume "a \<noteq> 0 \<and> is_user_vaddr K a \<and> pml4_get_page K (pml4 (cur s)) a \<noteq> 0"
  then show "check_address K a s = (Ret (), s)"
    by (simp add: check_address_valid valid_pointer_def)
qed

theorem check_address_exits_iff_invalid_witness:
  "check_address K0 0 s0 =
     (Stop Thread_exited,
      s0\<lparr>cur := (cur s0)\<lparr>exit_status := - 1\<rparr>,
         trace := [Printf (''main: exit(-1)'' @ [CHR 0x0A]), Thread_exit]\<rparr>)
   \<and> write K0 1 0x9000000000 5 s0 = (Stop Thread_exited, exited (- 1) s0)
   \<and> check_address K0 0x400010 s0 = (Ret (), s0)"
  using check_address_exits_iff_invalid [of 0 K0 s0 0 1]
        check_address_exits_iff_invalid [of "0x9000000000" K0 s0 5 1]
        check_address_exits_iff_invalid [of "0x400010" K0 s0 0 1]
  by (simp add: K0_def s0_def Let_def exited_def dec_int_minus_one)

subsection \<open>The descriptor lookup\<close>

text \<open>
  C4. On a table with \<^verbatim>\<open>FDT_COUNT_LIMIT\<close> slots, \<open>process_get_file\<close> returns for every
  \<open>fd\<close>, without reading outside the table, and the pointer it returns is null exactly
  when \<open>fd\<close> is below 2, or at or above \<^verbatim>\<open>FDT_COUNT_LIMIT\<close>, or the slot at \<open>fd\<close> is
  empty. For every \<open>fd\<close> below 2 it returns null, whatever the table.
\<close>

theorem process_get_file_null_iff:
  "(fdt_allocated K s \<longrightarrow>
      (\<exists>p. process_get_file K fd s = (Ret p, s)
           \<and> (p = 0 \<longleftrightarrow> sint fd < 2 \<or> FDT_COUNT_LIMIT K \<le> sint fd
                            \<or> fdt (cur s) ! nat (sint fd) = 0)))
   \<and> (sint fd < 2 \<longrightarrow> process_get_file K fd s = (Ret 0, s))"
proof (intro conjI impI)
  assume "fdt_allocated K s"
  then show "\<exists>p. process_get_file K fd s = (Ret p, s)
           \<and> (p = 0 \<longleftrightarrow> sint fd < 2 \<or> FDT_COUNT_LIMIT K \<le> sint fd
                            \<or> fdt (cur s) ! nat (sint fd) = 0)"
    by (auto simp: process_get_file_allocated)
next
  assume "sint fd < 2"
  then show "process_get_file K fd s = (Ret 0, s)"
    by (simp add: process_get_file_def)
qed

theorem process_get_file_null_iff_witness:
  "fdt_allocated K0 s0
   \<and> process_get_file K0 2 s0 = (Ret 0x8004300000, s0)
   \<and> process_get_file K0 3 s0 = (Ret 0, s0)
   \<and> process_get_file K0 8 s0 = (Ret 0, s0)
   \<and> process_get_file K0 1 s0 = (Ret 0, s0)
   \<and> process_get_file K0 (- 5) s0 = (Ret 0, s0)"
proof -
  have a: "fdt_allocated K0 s0"
    by (simp add: K0_def s0_def fdt_allocated_def)
  have l: "FDT_COUNT_LIMIT K0 = 8" "fdt (cur s0) = [0, 0, 0x8004300000, 0, 0, 0, 0, 0]"
    by (simp_all add: K0_def s0_def)
  show ?thesis
    using a process_get_file_null_iff [of K0 s0 2] process_get_file_null_iff [of K0 s0 3]
          process_get_file_null_iff [of K0 s0 8] process_get_file_null_iff [of K0 s0 1]
          process_get_file_null_iff [of K0 s0 "- 5"]
    by (auto simp: l process_get_file_def fdt_read_def)
qed

subsection \<open>write\<close>

text \<open>
  C5. With a valid buffer pointer, \<open>write(fd, buffer, size)\<close> on \<open>fd = 1\<close> calls
  \<^verbatim>\<open>putbuf(buffer, size)\<close> once, which hands \<open>size\<close> bytes to the console, and returns
  \<open>size\<close>; on an \<open>fd\<close> below 2 other than 1 it returns -1 and does nothing; on an
  \<open>fd\<close> of 2 or more for which the lookup gives null it returns -1 and does nothing; and
  on an \<open>fd\<close> with an open file it returns what \<^verbatim>\<open>file_write\<close> returned, the number of
  bytes written.
\<close>

theorem write_result:
  assumes "valid_pointer K s buffer"
  shows "(fd = 1 \<longrightarrow>
            write K fd buffer sz s = (Ret sz, s\<lparr>trace := trace s @ [Putbuf buffer sz]\<rparr>))
       \<and> (fd \<noteq> 1 \<and> sint fd < 2 \<longrightarrow> write K fd buffer sz s = (Ret (- 1), s))
       \<and> (2 \<le> sint fd \<and> process_get_file K fd s = (Ret 0, s) \<longrightarrow>
            write K fd buffer sz s = (Ret (- 1), s))
       \<and> (\<forall>file. 2 \<le> sint fd \<and> file \<noteq> 0 \<and> process_get_file K fd s = (Ret file, s) \<longrightarrow>
            write K fd buffer sz s =
              (Ret (file_write K (s\<lparr>trace := trace s @ [Lock_acquire]\<rparr>) file buffer sz),
               s\<lparr>trace := trace s @ [Lock_acquire, File_write file buffer sz, Lock_release]\<rparr>))"
  using assms by (auto simp: write_valid log_def)

theorem write_result_witness:
  "valid_pointer K0 s0 0x400010
   \<and> write K0 1 0x400010 5 s0 = (Ret 5, s0\<lparr>trace := [Putbuf 0x400010 5]\<rparr>)
   \<and> write K0 0 0x400010 5 s0 = (Ret (- 1), s0)
   \<and> write K0 3 0x400010 5 s0 = (Ret (- 1), s0)
   \<and> write K0 2 0x400010 5 s0 =
       (Ret 5, s0\<lparr>trace := [Lock_acquire, File_write 0x8004300000 0x400010 5, Lock_release]\<rparr>)"
proof -
  have t: "trace s0 = []" "file_write K0 = (\<lambda>s f b n. n)"
    by (simp_all add: s0_def K0_def)
  show ?thesis
    using valid_K0 write_result [OF valid_K0, of 1 5] write_result [OF valid_K0, of 0 5]
          write_result [OF valid_K0, of 3 5] write_result [OF valid_K0, of 2 5]
    by (simp add: process_get_file_K0 t)
qed

text \<open>
  C10. With a valid buffer, \<open>write(1, buffer, size)\<close> calls \<^verbatim>\<open>putbuf\<close> and returns
  \<open>size\<close>, and the calls it makes contain no \<^verbatim>\<open>lock_acquire\<close>; \<open>read(0, buffer, size)\<close>
  returns \<open>size\<close> too, but takes the lock before its first \<^verbatim>\<open>input_getc\<close> and
  releases it after the last.
\<close>

theorem write_console_takes_no_lock:
  assumes "valid_pointer K s buffer"
  shows "write K 1 buffer sz s = (Ret sz, s\<lparr>trace := trace s @ [Putbuf buffer sz]\<rparr>)
       \<and> new_calls s (snd (write K 1 buffer sz s)) = [Putbuf buffer sz]
       \<and> Lock_acquire \<notin> set (new_calls s (snd (write K 1 buffer sz s)))
       \<and> (\<exists>s'. read K 0 buffer sz s = (Ret sz, s')
             \<and> new_calls s s' = Lock_acquire # replicate (unat sz) Input_getc @ [Lock_release])"
proof -
  have w: "write K 1 buffer sz s = (Ret sz, s\<lparr>trace := trace s @ [Putbuf buffer sz]\<rparr>)"
    using assms by (simp add: write_valid log_def)
  obtain s' where r: "read K 0 buffer sz s = (Ret sz, s')"
    using assms by (simp add: read_valid read_loop_count)
  from read_calls [OF r]
  have "new_calls s s' = Lock_acquire # replicate (unat sz) Input_getc @ [Lock_release]"
    by simp
  with r w show ?thesis
    by (simp add: new_calls_def)
qed

theorem write_console_takes_no_lock_witness:
  "valid_pointer K0 s0 0x400010
   \<and> write K0 1 0x400010 3 s0 = (Ret 3, s0\<lparr>trace := [Putbuf 0x400010 3]\<rparr>)
   \<and> fst (read K0 0 0x400010 3 s0) = Ret 3
   \<and> new_calls s0 (snd (read K0 0 0x400010 3 s0)) =
       [Lock_acquire, Input_getc, Input_getc, Input_getc, Lock_release]"
proof -
  have t: "trace s0 = []"
    by (simp add: s0_def)
  have u: "replicate 3 Input_getc = [Input_getc, Input_getc, Input_getc]"
    by (simp add: numeral_3_eq_3)
  show ?thesis
    using valid_K0 write_console_takes_no_lock [OF valid_K0, of 3]
    by (auto simp: t u)
qed

subsection \<open>The filesystem lock in read and write\<close>

text \<open>
  C2, as stated, does not hold for \<open>read\<close>: \<open>read\<close> takes the lock right after the
  validation of the buffer, before it looks at \<open>fd\<close>. On \<open>read(1, buffer, 4)\<close> the lock
  is taken and released around the check of \<open>fd\<close> alone, and \<^verbatim>\<open>file_read\<close> is never
  called.
\<close>

theorem read_takes_lock_without_file_read:
  "read K0 1 0x400010 4 s0 = (Ret (- 1), s0\<lparr>trace := [Lock_acquire, Lock_release]\<rparr>)
   \<and> \<not> lock_only_around_io (new_calls s0 (snd (read K0 1 0x400010 4 s0)))"
proof -
  have t: "trace s0 = []"
    by (simp add: s0_def)
  have "read K0 1 0x400010 4 s0 = (Ret (- 1), s0\<lparr>trace := [Lock_acquire, Lock_release]\<rparr>)"
    by (simp add: read_valid [OF valid_K0] log_def t)
  then show ?thesis
    by (simp add: new_calls_def t)
qed

text \<open>
  C2, amended. In \<open>write\<close> the lock is acquired only around the single \<^verbatim>\<open>file_write\<close>
  call. In \<open>read\<close> the lock is acquired once, after the validation of the buffer, and is
  held over the console input loop (for \<open>fd = 0\<close>), over the checks of \<open>fd\<close> and the
  lookup, and over the \<^verbatim>\<open>file_read\<close> call. Whenever \<open>read\<close> or \<open>write\<close> returns, the lock
  has been released.
\<close>

theorem read_write_release_lock_before_return:
  "(\<forall>r s'. write K fd buffer sz s = (Ret r, s') \<longrightarrow>
       lock_only_around_io (new_calls s s') \<and> \<not> lock_held_after (new_calls s s'))
   \<and> (\<forall>r s'. read K fd buffer sz s = (Ret r, s') \<longrightarrow>
       \<not> lock_held_after (new_calls s s')
       \<and> new_calls s s' =
           Lock_acquire #
             (if fd = 0 then replicate (unat sz) Input_getc
              else if sint fd < 2 \<or> fst (process_get_file K fd s) = Ret 0 then []
              else [File_read (fdt (cur s) ! nat (sint fd)) buffer sz]) @ [Lock_release])"
proof (intro conjI allI impI)
  fix r s'
  assume "write K fd buffer sz s = (Ret r, s')"
  from write_calls [OF this]
  show "lock_only_around_io (new_calls s s')"
    by (auto simp: is_file_io_def)
  from write_calls [OF \<open>write K fd buffer sz s = (Ret r, s')\<close>]
  show "\<not> lock_held_after (new_calls s s')"
    by (auto simp: lock_held_after_def lock_step_def)
next
  fix r s'
  assume r: "read K fd buffer sz s = (Ret r, s')"
  show "\<not> lock_held_after (new_calls s s')"
    unfolding read_calls [OF r] by (rule lock_held_after_read_calls)
  show "new_calls s s' =
           Lock_acquire #
             (if fd = 0 then replicate (unat sz) Input_getc
              else if sint fd < 2 \<or> fst (process_get_file K fd s) = Ret 0 then []
              else [File_read (fdt (cur s) ! nat (sint fd)) buffer sz]) @ [Lock_release]"
    by (rule read_calls [OF r])
qed

theorem read_write_release_lock_before_return_witness:
  "write K0 2 0x400010 5 s0 =
      (Ret 5, s0\<lparr>trace := [Lock_acquire, File_write 0x8004300000 0x400010 5, Lock_release]\<rparr>)
   \<and> lock_only_around_io [Lock_acquire, File_write 0x8004300000 0x400010 5, Lock_release]
   \<and> read K0 2 0x400010 5 s0 =
      (Ret 5, s0\<lparr>trace := [Lock_acquire, File_read 0x8004300000 0x400010 5, Lock_release]\<rparr>)
   \<and> new_calls s0 (snd (read K0 2 0x400010 5 s0)) =
      [Lock_acquire, File_read 0x8004300000 0x400010 5, Lock_release]
   \<and> \<not> lock_held_after (new_calls s0 (snd (read K0 2 0x400010 5 s0)))"
proof -
  have t: "trace s0 = []" "file_write K0 = (\<lambda>s f b n. n)" "file_read K0 = (\<lambda>s f b n. n)"
    by (simp_all add: s0_def K0_def)
  have w: "write K0 2 0x400010 5 s0 =
      (Ret 5, s0\<lparr>trace := [Lock_acquire, File_write 0x8004300000 0x400010 5, Lock_release]\<rparr>)"
    by (simp add: write_valid [OF valid_K0] process_get_file_K0 log_def t)
  have r: "read K0 2 0x400010 5 s0 =
      (Ret 5, s0\<lparr>trace := [Lock_acquire, File_read 0x8004300000 0x400010 5, Lock_release]\<rparr>)"
    by (simp add: read_valid [OF valid_K0] process_get_file_trace process_get_file_K0 log_def t)
  show ?thesis
    using read_write_release_lock_before_return [of K0 2 "0x400010" 5 s0]
    by (simp add: w r is_file_io_def new_calls_def t)
qed

subsection \<open>open\<close>

text \<open>
  What \<open>open\<close> does with a valid path pointer, on a table of \<^verbatim>\<open>FDT_COUNT_LIMIT\<close>
  slots (a limit that fits an \<^verbatim>\<open>int\<close>), with the allocation \<open>process_add_file\<close>
  modelled from the spec: it returns -1 when \<^verbatim>\<open>filesys_open\<close> finds no file, and
  nothing else is called; it returns -1 when the file is found but no slot from index 2
  on is empty, after a call of \<^verbatim>\<open>free\<close> on the handle just opened, the table unchanged;
  otherwise it returns a descriptor that is at least 2 and below the limit, whose slot
  was empty and now holds the new handle.
\<close>

lemma open_file_cases:
  assumes "valid_pointer K s file" and "fdt_allocated K s" and "FDT_COUNT_LIMIT K < 2 ^ 31"
  shows "(let f = filesys_open K s file in
      (f = 0 \<longrightarrow> open_file K file s = (Ret (- 1), s\<lparr>trace := trace s @ [Filesys_open file]\<rparr>))
    \<and> (f \<noteq> 0 \<and> (\<forall>i. 2 \<le> i \<and> i < length (fdt (cur s)) \<longrightarrow> fdt (cur s) ! i \<noteq> 0) \<longrightarrow>
         open_file K file s =
           (Ret (- 1), s\<lparr>trace := trace s @ [Filesys_open file, Free f]\<rparr>))
    \<and> (f \<noteq> 0 \<and> (\<exists>i. 2 \<le> i \<and> i < length (fdt (cur s)) \<and> fdt (cur s) ! i = 0) \<longrightarrow>
         (\<exists>fd s'. open_file K file s = (Ret fd, s') \<and> 2 \<le> sint fd \<and> sint fd < FDT_COUNT_LIMIT K
            \<and> fdt (cur s) ! nat (sint fd) = 0
            \<and> fdt (cur s') = (fdt (cur s))[nat (sint fd) := f]
            \<and> trace s' = trace s @ [Filesys_open file]
            \<and> process_get_file K fd s' = (Ret f, s'))))"
proof -
  define f where "f = filesys_open K s file"
  define s2 where "s2 = log (Filesys_open file) s"
  have len: "\<And>i. i < length (fdt (cur s)) \<Longrightarrow> int i < FDT_COUNT_LIMIT K"
      "length (fdt (cur s)) < 2 ^ 31"
    using assms(2,3) by (auto simp: fdt_allocated_def)
  have not_found: "open_file K file s = (Ret (- 1), s\<lparr>trace := trace s @ [Filesys_open file]\<rparr>)"
    if "f = 0"
    using that by (simp add: open_file_valid [OF assms(1)] f_def log_def)
  have full: "open_file K file s =
           (Ret (- 1), s\<lparr>trace := trace s @ [Filesys_open file, Free f]\<rparr>)"
    if "f \<noteq> 0" and "\<forall>i. 2 \<le> i \<and> i < length (fdt (cur s)) \<longrightarrow> fdt (cur s) ! i \<noteq> 0"
  proof -
    have "process_add_file f s2 = (- 1, s2)"
      using that(2) by (intro process_add_file_full) (simp add: s2_def)
    then show ?thesis
      using that(1) by (simp add: open_file_valid [OF assms(1)] f_def [symmetric] s2_def [symmetric])
         (simp add: s2_def log_def)
  qed
  have free: "\<exists>fd s'. open_file K file s = (Ret fd, s') \<and> 2 \<le> sint fd \<and> sint fd < FDT_COUNT_LIMIT K
            \<and> fdt (cur s) ! nat (sint fd) = 0
            \<and> fdt (cur s') = (fdt (cur s))[nat (sint fd) := f]
            \<and> trace s' = trace s @ [Filesys_open file]
            \<and> process_get_file K fd s' = (Ret f, s')"
    if "f \<noteq> 0" and "\<exists>i. 2 \<le> i \<and> i < length (fdt (cur s)) \<and> fdt (cur s) ! i = 0"
  proof -
    have "\<exists>i. 2 \<le> i \<and> i < length (fdt (cur s2)) \<and> fdt (cur s2) ! i = 0"
      using that(2) by (simp add: s2_def)
    from process_add_file_free [OF this, of f]
    obtain i where i: "2 \<le> i" "i < length (fdt (cur s))" "fdt (cur s) ! i = 0"
        "fst (process_add_file f s2) = of_nat i"
        "fdt (cur (snd (process_add_file f s2))) = (fdt (cur s))[i := f]"
        "trace (snd (process_add_file f s2)) = trace s @ [Filesys_open file]"
      by (auto simp: s2_def)
    have si: "sint (of_nat i :: cint) = int i"
      using i(2) len(2) by (intro sint_of_nat_small) simp
    have ne: "(of_nat i :: cint) \<noteq> - 1"
    proof
      assume "(of_nat i :: cint) = - 1"
      then have "sint (of_nat i :: cint) = - 1"
        by simp
      with si show False
        by simp
    qed
    have o: "open_file K file s = (Ret (of_nat i), snd (process_add_file f s2))"
      using that(1) ne i(4)
      by (simp add: open_file_valid [OF assms(1)] f_def [symmetric] s2_def [symmetric])
    have g: "process_get_file K (of_nat i) (snd (process_add_file f s2)) =
               (Ret f, snd (process_add_file f s2))"
      using i(1,2) len(1) [OF i(2)] by (simp add: process_get_file_def fdt_read_def si i(5))
    show ?thesis
      using o g i len(1) [OF i(2)] by (intro exI [of _ "of_nat i"] exI [of _ "snd (process_add_file f s2)"])
        (simp add: si)
  qed
  show ?thesis
    unfolding Let_def f_def [symmetric] using not_found full free by blast
qed


text \<open>
  C3. The claim says that on a full table the handle just opened is released before
  \<open>open\<close> returns, so that no handle leaks. The code does not do that: on the full
  table below, with the file found, \<open>open\<close> returns -1 after the calls
  \<^verbatim>\<open>filesys_open(file)\<close> and \<^verbatim>\<open>free(f)\<close> and no other. The handle is never given to
  \<^verbatim>\<open>file_close\<close>, the close of the filesystem with which \<open>close\<close> of the same file
  releases a handle: only the memory of the \<^verbatim>\<open>struct file\<close> is freed, and what the
  filesystem holds for the open file stays open.
\<close>

theorem open_full_table_frees_without_file_close:
  "open_file K0 0x400000 (s0\<lparr>cur := (cur s0)\<lparr>fdt := [0, 0, 7, 7, 7, 7, 7, 7]\<rparr>\<rparr>) =
        (Ret (- 1),
         s0\<lparr>cur := (cur s0)\<lparr>fdt := [0, 0, 7, 7, 7, 7, 7, 7]\<rparr>,
            trace := [Filesys_open 0x400000, Free 0x8004100000]\<rparr>)
   \<and> File_close 0x8004100000 \<notin>
        set (trace (snd (open_file K0 0x400000
                           (s0\<lparr>cur := (cur s0)\<lparr>fdt := [0, 0, 7, 7, 7, 7, 7, 7]\<rparr>\<rparr>))))
   \<and> trace (snd (close K0 2 s0)) = [File_close 0x8004300000]"
proof -
  define s1 where "s1 = s0\<lparr>cur := (cur s0)\<lparr>fdt := [0, 0, 7, 7, 7, 7, 7, 7]\<rparr>\<rparr>"
  have v: "valid_pointer K0 s1 0x400000"
    by (simp add: valid_pointer_def K0_def s0_def s1_def)
  have a: "fdt_allocated K0 s1" "FDT_COUNT_LIMIT K0 < 2 ^ 31"
    by (simp_all add: fdt_allocated_def K0_def s0_def s1_def)
  have k: "filesys_open K0 = (\<lambda>s a. if a = 0x400000 then 0x8004100000 else 0)"
    by (simp add: K0_def)
  have t: "trace s0 = []" "trace s1 = []" "next_fd (cur s0) = 3"
      "fdt (cur s0) = [0, 0, 0x8004300000, 0, 0, 0, 0, 0]"
      "fdt (cur s1) = [0, 0, 7, 7, 7, 7, 7, 7]"
    by (simp_all add: s0_def s1_def)
  have full: "\<forall>i. 2 \<le> i \<and> i < length (fdt (cur s1)) \<longrightarrow> fdt (cur s1) ! i \<noteq> 0"
    by (simp add: t nth_Cons split: nat.splits)
  have o: "open_file K0 0x400000 s1 =
             (Ret (- 1), s1\<lparr>trace := [Filesys_open 0x400000, Free 0x8004100000]\<rparr>)"
    using open_file_cases [OF v a] full by (simp add: k t)
  have c: "trace (snd (close K0 2 s0)) = [File_close 0x8004300000]"
    by (simp add: close_def t process_get_file_K0 fdt_write_def log_def)
  show ?thesis
    unfolding s1_def [symmetric] using o c by (simp add: s1_def)
qed

subsection \<open>close\<close>

text \<open>
  C6. \<open>close(fd)\<close> returns with the state unchanged when \<open>fd\<close> is at most 1 or is not
  below \<open>next_fd\<close>, the end of the range of descriptors the process has allocated. For an
  \<open>fd\<close> in that range with an open file, it calls \<^verbatim>\<open>file_close\<close> on the handle and
  clears the slot, and a lookup of \<open>fd\<close> afterwards gives null. Slots 0 and 1 are never
  written by \<open>close\<close>.
\<close>

theorem close_effect:
  "(sint fd \<le> 1 \<or> sint (next_fd (cur s)) \<le> sint fd \<longrightarrow> close K fd s = (Ret (), s))
   \<and> (\<forall>p. 1 < sint fd \<and> sint fd < sint (next_fd (cur s)) \<and> p \<noteq> 0
           \<and> process_get_file K fd s = (Ret p, s) \<longrightarrow>
         (let s' = s\<lparr>cur := (cur s)\<lparr>fdt := (fdt (cur s))[nat (sint fd) := 0]\<rparr>,
                      trace := trace s @ [File_close p]\<rparr>
          in close K fd s = (Ret (), s') \<and> process_get_file K fd s' = (Ret 0, s')))
   \<and> fdt (cur (snd (close K fd s))) ! 0 = fdt (cur s) ! 0
   \<and> fdt (cur (snd (close K fd s))) ! 1 = fdt (cur s) ! 1"
  using process_get_file_cases [of K fd s]
  by (auto simp: close_def Let_def fdt_write_def log_def process_get_file_def fdt_read_def
           split: if_splits)

theorem close_effect_witness:
  "close K0 1 s0 = (Ret (), s0) \<and> close K0 0 s0 = (Ret (), s0) \<and> close K0 3 s0 = (Ret (), s0)
   \<and> close K0 2 s0 =
       (Ret (), s0\<lparr>cur := (cur s0)\<lparr>fdt := [0, 0, 0, 0, 0, 0, 0, 0]\<rparr>,
                   trace := [File_close 0x8004300000]\<rparr>)
   \<and> process_get_file K0 2 (snd (close K0 2 s0)) = (Ret 0, snd (close K0 2 s0))"
proof -
  have t: "trace s0 = []" "next_fd (cur s0) = 3"
      "fdt (cur s0) = [0, 0, 0x8004300000, 0, 0, 0, 0, 0]"
    by (simp_all add: s0_def)
  show ?thesis
    using close_effect [of 1 s0 K0] close_effect [of 0 s0 K0] close_effect [of 3 s0 K0]
          close_effect [of 2 s0 K0]
    by (simp add: t process_get_file_K0 Let_def)
qed

subsection \<open>exec\<close>

text \<open>
  C7. With a valid pointer, \<open>exec\<close> asks \<^verbatim>\<open>palloc_get_page\<close> for a page; if there is
  none, the process ends with exit status -1 and nothing is copied or executed. Otherwise
  the command line is copied into that page with \<^verbatim>\<open>strlcpy\<close> and only then
  \<^verbatim>\<open>process_exec\<close> is called on the copy; if it reports failure (-1) the process ends
  with exit status -1, and if it replaces the image \<open>exec\<close> does not return. \<open>exec\<close>
  returns to its caller only if \<^verbatim>\<open>process_exec\<close> returns a value other than -1.
\<close>

theorem exec_copies_then_replaces:
  assumes "valid_pointer K s cmd_line"
  shows "(let page = palloc_get_page K s 0;
              s2 = s\<lparr>trace := trace s @ [Palloc_get_page 0]\<rparr>;
              s4 = s\<lparr>trace := trace s @ [Palloc_get_page 0, Strlcpy page cmd_line (PGSIZE K)]\<rparr>;
              s5 = s\<lparr>trace := trace s @ [Palloc_get_page 0, Strlcpy page cmd_line (PGSIZE K),
                                            Process_exec page]\<rparr>
          in (page = 0 \<longrightarrow> exec K cmd_line s = (Stop Thread_exited, exited (- 1) s2))
           \<and> (page \<noteq> 0 \<and> process_exec K s4 page = Exec_returns (- 1) \<longrightarrow>
                exec K cmd_line s = (Stop Thread_exited, exited (- 1) s5))
           \<and> (page \<noteq> 0 \<and> process_exec K s4 page = Exec_replaced \<longrightarrow>
                exec K cmd_line s = (Stop Image_replaced, s5))
           \<and> (\<forall>r s'. exec K cmd_line s = (Ret r, s') \<longrightarrow>
                (\<exists>v. v \<noteq> - 1 \<and> process_exec K s4 page = Exec_returns v)))"
  using assms
  by (auto simp: exec_def check_address_valid Let_def exit_eq log_def split: exec_result.splits)

theorem exec_copies_then_replaces_witness:
  "valid_pointer K0 s0 0x400010
   \<and> exec K0 0x400010 s0 =
       (Stop Image_replaced,
        s0\<lparr>trace := [Palloc_get_page 0, Strlcpy 0x8004200000 0x400010 4096,
                      Process_exec 0x8004200000]\<rparr>)
   \<and> exec (K0\<lparr>palloc_get_page := \<lambda>s fl. 0\<rparr>) 0x400010 s0 =
       (Stop Thread_exited, exited (- 1) (s0\<lparr>trace := [Palloc_get_page 0]\<rparr>))
   \<and> exec (K0\<lparr>process_exec := \<lambda>s p. Exec_returns (- 1)\<rparr>) 0x400010 s0 =
       (Stop Thread_exited,
        exited (- 1) (s0\<lparr>trace := [Palloc_get_page 0, Strlcpy 0x8004200000 0x400010 4096,
                                    Process_exec 0x8004200000]\<rparr>))"
proof -
  have v: "valid_pointer (K0\<lparr>palloc_get_page := \<lambda>s fl. 0\<rparr>) s0 0x400010"
      "valid_pointer (K0\<lparr>process_exec := \<lambda>s p. Exec_returns (- 1)\<rparr>) s0 0x400010"
    by (simp_all add: valid_pointer_def K0_def s0_def)
  have t: "trace s0 = []"
    by (simp add: s0_def)
  have k: "palloc_get_page K0 = (\<lambda>s fl. 0x8004200000)" "process_exec K0 = (\<lambda>s p. Exec_replaced)"
      "PGSIZE K0 = 4096"
    by (simp_all add: K0_def)
  show ?thesis
    using valid_K0 exec_copies_then_replaces [OF valid_K0]
          exec_copies_then_replaces [OF v(1)] exec_copies_then_replaces [OF v(2)]
    by (simp add: t k Let_def)
qed

subsection \<open>exit\<close>

text \<open>
  C9. \<open>exit(status)\<close> has one outcome for every status and state: \<open>status\<close> is stored in
  the \<open>exit_status\<close> of the calling thread, the message with the name of the process and
  the status in decimal is printed, and \<^verbatim>\<open>thread_exit\<close> ends the thread. The field is
  written once in the life of a process: a system call \<open>exit\<close> is the last call of the
  process, whatever calls would follow, and as long as the system calls of a process
  return, the field has not been written.
\<close>

theorem exit_records_status_and_terminates:
  "exit status s =
     (Stop Thread_exited,
      s\<lparr>cur := (cur s)\<lparr>exit_status := status\<rparr>,
        trace := trace s @
          [Printf (name (cur s) @ '': exit('' @ dec_int (sint status) @ '')'' @ [CHR 0x0A]),
           Thread_exit]\<rparr>)
   \<and> ((ucast (rax f) :: cint) = SYS_EXIT \<longrightarrow>
        syscalls K (f # fs) s = (Some Thread_exited, exited (ucast (rdi f)) s))
   \<and> (\<forall>s'. syscalls K fs s = (None, s') \<longrightarrow> exit_status (cur s') = exit_status (cur s))"
proof (intro conjI impI allI)
  show "exit status s =
     (Stop Thread_exited,
      s\<lparr>cur := (cur s)\<lparr>exit_status := status\<rparr>,
        trace := trace s @
          [Printf (name (cur s) @ '': exit('' @ dec_int (sint status) @ '')'' @ [CHR 0x0A]),
           Thread_exit]\<rparr>)"
    by (simp add: exit_eq exited_def)
next
  assume "(ucast (rax f) :: cint) = SYS_EXIT"
  then show "syscalls K (f # fs) s = (Some Thread_exited, exited (ucast (rdi f)) s)"
    by (simp add: syscall_handler_def SYS_defs exit_eq)
next
  fix s'
  assume "syscalls K fs s = (None, s')"
  then show "exit_status (cur s') = exit_status (cur s)"
    by (rule syscalls_alive_status)
qed

theorem exit_records_status_and_terminates_witness:
  "syscalls K0 [f0\<lparr>rax := 1, rdi := 7\<rparr>, f0\<lparr>rax := 10, rdi := 1, rsi := 0x400010, rdx := 5\<rparr>] s0 =
     (Some Thread_exited,
      s0\<lparr>cur := (cur s0)\<lparr>exit_status := 7\<rparr>,
         trace := [Printf (''main: exit(7)'' @ [CHR 0x0A]), Thread_exit]\<rparr>)
   \<and> syscalls K0 [f0\<lparr>rax := 10, rdi := 1, rsi := 0x400010, rdx := 5\<rparr>] s0 =
       (None, s0\<lparr>trace := [Putbuf 0x400010 5]\<rparr>)
   \<and> exit_status (cur (s0\<lparr>trace := [Putbuf 0x400010 5]\<rparr>)) = exit_status (cur s0)"
proof -
  have t: "trace s0 = []" "name (cur s0) = ''main''"
    by (simp_all add: s0_def)
  have d: "dec_int 7 = ''7''"
    by (simp add: dec_int_def dec_nat.simps digit_def)
  have w: "syscalls K0 [f0\<lparr>rax := 10, rdi := 1, rsi := 0x400010, rdx := 5\<rparr>] s0 =
       (None, s0\<lparr>trace := [Putbuf 0x400010 5]\<rparr>)"
    by (simp add: syscall_handler_def SYS_defs set_rax_int_def write_valid [OF valid_K0]
        log_def t)
  note e = exit_records_status_and_terminates
            [where 'a = unit, of 7 s0 "f0\<lparr>rax := 1, rdi := 7\<rparr>" K0
                "[f0\<lparr>rax := 10, rdi := 1, rsi := 0x400010, rdx := 5\<rparr>]"]
  have x: "exit 7 s0 =
     (Stop Thread_exited :: unit outcome,
      s0\<lparr>cur := (cur s0)\<lparr>exit_status := 7\<rparr>,
         trace := [Printf (''main: exit(7)'' @ [CHR 0x0A]), Thread_exit]\<rparr>)"
    using e by (simp add: t d del: syscalls.simps)
  have y: "syscalls K0 [f0\<lparr>rax := 1, rdi := 7\<rparr>,
                        f0\<lparr>rax := 10, rdi := 1, rsi := 0x400010, rdx := 5\<rparr>] s0 =
             (Some Thread_exited, exited 7 s0)"
    using e by (simp add: SYS_defs del: syscalls.simps)
  show ?thesis
    using x by (simp add: y w exit_eq del: syscalls.simps)
qed

subsection \<open>The dispatcher\<close>

text \<open>
  C8, as stated, does not hold: the dispatcher reads the number with
  \<^verbatim>\<open>int syscall_number = f->R.rax\<close>, which keeps the low 32 bits of the 64-bit
  register. The register value \<^verbatim>\<open>0x100000000\<close> is the number of no handler, yet the
  dispatcher switches on 0 and calls \<open>halt\<close>.
\<close>

theorem syscall_number_beyond_32_bits_halts:
  "uint (rax (f0\<lparr>rax := 0x100000000\<rparr>)) \<notin> set (map sint handler_numbers)
   \<and> syscall_handler K0 (f0\<lparr>rax := 0x100000000\<rparr>) s0 =
       (Stop Powered_off, s0\<lparr>trace := [Power_off]\<rparr>)"
proof -
  have t: "trace s0 = []"
    by (simp add: s0_def)
  show ?thesis
    by (simp add: handler_numbers_def SYS_defs syscall_handler_def halt_def log_def t)
qed

text \<open>
  C8, amended. For every frame whose system-call number, read as the dispatcher reads it
  (the low 32 bits of \<open>rax\<close>), is the number of no handler, the dispatcher returns with
  the frame and the state unchanged, so no handler and no collaborator has been called.
  For the handlers without a result the return-value register is left as it was: after
  \<open>seek\<close> and \<open>close\<close> the dispatcher returns the frame it was given, and in \<open>halt\<close> and
  \<open>exit\<close> it stops before any register is written.
\<close>

theorem syscall_handler_unknown_number_is_noop:
  "((ucast (rax f) :: cint) \<notin> set handler_numbers \<longrightarrow> syscall_handler K f s = (Ret f, s))
   \<and> ((ucast (rax f) :: cint) = SYS_HALT \<longrightarrow>
        syscall_handler K f s = (Stop Powered_off, s\<lparr>trace := trace s @ [Power_off]\<rparr>))
   \<and> ((ucast (rax f) :: cint) = SYS_EXIT \<longrightarrow>
        syscall_handler K f s = (Stop Thread_exited, exited (ucast (rdi f)) s))
   \<and> ((ucast (rax f) :: cint) = SYS_SEEK \<or> (ucast (rax f) :: cint) = SYS_CLOSE \<longrightarrow>
        (\<forall>f' s'. syscall_handler K f s = (Ret f', s') \<longrightarrow> f' = f))"
  by (auto simp: syscall_handler_def handler_numbers_def SYS_defs halt_def exit_eq log_def
        keep_frame_def dest!: then_do_RetD)

theorem syscall_handler_unknown_number_is_noop_witness:
  "syscall_handler K0 (f0\<lparr>rax := 99\<rparr>) s0 = (Ret (f0\<lparr>rax := 99\<rparr>), s0)
   \<and> syscall_handler K0 (f0\<lparr>rax := 0\<rparr>) s0 = (Stop Powered_off, s0\<lparr>trace := [Power_off]\<rparr>)
   \<and> syscall_handler K0 (f0\<lparr>rax := 1, rdi := 7\<rparr>) s0 = (Stop Thread_exited, exited 7 s0)
   \<and> syscall_handler K0 (f0\<lparr>rax := 13, rdi := 2\<rparr>) s0 =
       (Ret (f0\<lparr>rax := 13, rdi := 2\<rparr>),
        s0\<lparr>cur := (cur s0)\<lparr>fdt := [0, 0, 0, 0, 0, 0, 0, 0]\<rparr>,
           trace := [File_close 0x8004300000]\<rparr>)"
proof -
  have t: "trace s0 = []" "next_fd (cur s0) = 3"
      "fdt (cur s0) = [0, 0, 0x8004300000, 0, 0, 0, 0, 0]"
    by (simp_all add: s0_def)
  have c: "syscall_handler K0 (f0\<lparr>rax := 13, rdi := 2\<rparr>) s0 =
       (Ret (f0\<lparr>rax := 13, rdi := 2\<rparr>),
        s0\<lparr>cur := (cur s0)\<lparr>fdt := [0, 0, 0, 0, 0, 0, 0, 0]\<rparr>,
           trace := [File_close 0x8004300000]\<rparr>)"
    by (simp add: syscall_handler_def SYS_defs keep_frame_def close_def t process_get_file_K0
        fdt_write_def log_def)
  show ?thesis
    using syscall_handler_unknown_number_is_noop [of "f0\<lparr>rax := 99\<rparr>" K0 s0]
          syscall_handler_unknown_number_is_noop [of "f0\<lparr>rax := 0\<rparr>" K0 s0]
          syscall_handler_unknown_number_is_noop [of "f0\<lparr>rax := 1, rdi := 7\<rparr>" K0 s0]
          syscall_handler_unknown_number_is_noop [of "f0\<lparr>rax := 13, rdi := 2\<rparr>" K0 s0]
    by (simp add: handler_numbers_def SYS_defs t c)
qed

end
